theory Spec2Isabelle
  imports Complex_Main
begin

section \<open>Python values and exceptions\<close>

text \<open>
  The repository is Python. Every \<^verbatim>\<open>raise\<close>, and every failure of a builtin or of the
  WMI client library, is a value of \<open>exn\<close>; a computation that may raise returns
  \<open>exn + 'a\<close> with \<open>Inl\<close> for the exception. Only subclasses of Python's
  \<^verbatim>\<open>Exception\<close> are modelled (what \<^verbatim>\<open>except Exception\<close> catches); each carries
  the text that \<^verbatim>\<open>str(e)\<close> gives. \<open>x_wmi\<close> stands for whatever the WMI client library
  raises, \<open>Exit\<close> for \<^verbatim>\<open>typer.Exit\<close> with its exit code.
\<close>

datatype exn =
    ZeroDivisionError string
  | ValueError string
  | TypeError string
  | AttributeError string
  | OverflowError string
  | x_wmi string
  | Exit int

text \<open>
  A property of a WMI object is null, a boolean, an integer, a string, a tuple of values
  (array-valued properties, method results), or a method of the object. \<open>PCallable\<close> carries the text
  that \<^verbatim>\<open>str\<close> gives for the method.
\<close>

datatype pyval =
    PNone
  | PBool bool
  | PInt int
  | PStr string
  | PTuple "pyval list"
  | PCallable string

fun callable :: "pyval \<Rightarrow> bool" where
  "callable (PCallable _) = True"
| "callable _ = False"

text \<open>Truthiness, as \<^verbatim>\<open>if value:\<close> reads it.\<close>

fun truthy :: "pyval \<Rightarrow> bool" where
  "truthy PNone = False"
| "truthy (PBool b) = b"
| "truthy (PInt i) = (i \<noteq> 0)"
| "truthy (PStr s) = (s \<noteq> [])"
| "truthy (PTuple xs) = (xs \<noteq> [])"
| "truthy (PCallable _) = True"

text \<open>
  A WMI object as the source uses it: \<^verbatim>\<open>dir(obj)\<close> lists its attribute names,
  \<^verbatim>\<open>getattr(obj, name)\<close> yields a value or raises, and \<^verbatim>\<open>obj.properties\<close> is
  the dictionary of its WMI properties, of which only the keys are read.
\<close>

record wmi_obj =
  obj_dir :: "string list"
  obj_getattr :: "string \<Rightarrow> exn + pyval"
  obj_properties :: "exn + string list"

text \<open>
  Attribute access on a value that may be \<^verbatim>\<open>None\<close>. \<^verbatim>\<open>None\<close> has only
  double-underscore attributes, none of which the source reads.
\<close>

fun getattr_opt :: "wmi_obj option \<Rightarrow> string \<Rightarrow> exn + pyval" where
  "getattr_opt None name =
     Inl (AttributeError (CHR 0x27 # ''NoneType'' @ CHR 0x27 # '' object has no attribute '' @
            CHR 0x27 # name @ [CHR 0x27]))"
| "getattr_opt (Some obj) name = obj_getattr obj name"

section \<open>Builtins the source relies on: \<^verbatim>\<open>str\<close>, \<^verbatim>\<open>repr\<close>, \<^verbatim>\<open>int\<close>\<close>

text \<open>Strings are ASCII text, one \<open>char\<close> per character.\<close>

definition digit_char :: "nat \<Rightarrow> char" where
  "digit_char d = ''0123456789abcdef'' ! d"

fun str_nat :: "nat \<Rightarrow> string" where
  "str_nat n = (if n < 10 then [digit_char n] else str_nat (n div 10) @ [digit_char (n mod 10)])"

declare str_nat.simps [simp del]

definition str_int :: "int \<Rightarrow> string" where
  "str_int i = (if i < 0 then CHR ''-'' # str_nat (nat (- i)) else str_nat (nat i))"

fun exn_str :: "exn \<Rightarrow> string" where
  "exn_str (ZeroDivisionError m) = m"
| "exn_str (ValueError m) = m"
| "exn_str (TypeError m) = m"
| "exn_str (AttributeError m) = m"
| "exn_str (OverflowError m) = m"
| "exn_str (x_wmi m) = m"
| "exn_str (Exit code) = str_int code"

text \<open>
  \<^verbatim>\<open>repr\<close> of a string: double quotes when the text has a single quote and no double
  quote, single quotes otherwise; the quote in use and the backslash are escaped, tab,
  newline and carriage return are written \<^verbatim>\<open>\t \n \r\<close>, other control characters
  \<^verbatim>\<open>\xhh\<close>.
\<close>

definition repr_char :: "char \<Rightarrow> char \<Rightarrow> string" where
  "repr_char quote c =
     (if c = quote \<or> c = CHR 0x5C then [CHR 0x5C, c]
      else if c = CHR 0x09 then [CHR 0x5C, CHR ''t'']
      else if c = CHR 0x0A then [CHR 0x5C, CHR ''n'']
      else if c = CHR 0x0D then [CHR 0x5C, CHR ''r'']
      else if (of_char c :: nat) < 32 \<or> c = CHR 0x7F
        then [CHR 0x5C, CHR ''x'', digit_char (of_char c div 16), digit_char (of_char c mod 16)]
      else [c])"

definition repr_str :: "string \<Rightarrow> string" where
  "repr_str s =
     (let quote = (if CHR 0x27 \<in> set s \<and> CHR 0x22 \<notin> set s then CHR 0x22 else CHR 0x27)
      in quote # concat (map (repr_char quote) s) @ [quote])"

fun join :: "string \<Rightarrow> string list \<Rightarrow> string" where
  "join sep [] = []"
| "join sep [x] = x"
| "join sep (x # y # ys) = x @ sep @ join sep (y # ys)"

text \<open>
  \<^verbatim>\<open>repr(value)\<close> and \<^verbatim>\<open>str(value)\<close>; the latter is also how an f-string renders
  \<^verbatim>\<open>{value}\<close>.
\<close>

fun py_repr :: "pyval \<Rightarrow> string" where
  "py_repr PNone = ''None''"
| "py_repr (PBool b) = (if b then ''True'' else ''False'')"
| "py_repr (PInt i) = str_int i"
| "py_repr (PStr s) = repr_str s"
| "py_repr (PTuple xs) =
     (case xs of
        [x] \<Rightarrow> ''('' @ py_repr x @ '',)''
      | _ \<Rightarrow> ''('' @ join '', '' (map py_repr xs) @ '')'')"
| "py_repr (PCallable s) = s"

fun py_str :: "pyval \<Rightarrow> string" where
  "py_str (PStr s) = s"
| "py_str v = py_repr v"

fun type_name :: "pyval \<Rightarrow> string" where
  "type_name PNone = ''NoneType''"
| "type_name (PBool b) = ''bool''"
| "type_name (PInt i) = ''int''"
| "type_name (PStr s) = ''str''"
| "type_name (PTuple xs) = ''tuple''"
| "type_name (PCallable s) = ''method''"

text \<open>
  \<^verbatim>\<open>int(value)\<close>. On a string: surrounding whitespace is dropped, then an optional sign,
  then decimal digits in which single underscores may separate digits; anything else is a
  \<^verbatim>\<open>ValueError\<close>. (The interpreter's optional cap on the number of digits is not
  modelled.)
\<close>

definition is_space :: "char \<Rightarrow> bool" where
  "is_space c = ((of_char c :: nat) \<in> {9, 10, 11, 12, 13, 28, 29, 30, 31, 32})"

definition strip :: "string \<Rightarrow> string" where
  "strip s = rev (dropWhile is_space (rev (dropWhile is_space s)))"

definition digit_val :: "char \<Rightarrow> nat option" where
  "digit_val c =
     (if (48::nat) \<le> of_char c \<and> (of_char c :: nat) \<le> 57 then Some (of_char c - 48) else None)"

fun parse_digits :: "nat \<Rightarrow> bool \<Rightarrow> string \<Rightarrow> nat option" where
  "parse_digits acc after_digit [] = (if after_digit then Some acc else None)"
| "parse_digits acc after_digit (c # cs) =
     (if c = CHR ''_'' then
        (if after_digit \<and> cs \<noteq> [] then parse_digits acc False cs else None)
      else
        (case digit_val c of
           None \<Rightarrow> None
         | Some d \<Rightarrow> parse_digits (10 * acc + d) True cs))"

definition parse_int :: "string \<Rightarrow> int option" where
  "parse_int s =
     (case strip s of
        CHR ''-'' # ds \<Rightarrow> map_option (\<lambda>n. - int n) (parse_digits 0 False ds)
      | CHR ''+'' # ds \<Rightarrow> map_option int (parse_digits 0 False ds)
      | ds \<Rightarrow> map_option int (parse_digits 0 False ds))"

definition int_TypeError :: "pyval \<Rightarrow> exn" where
  "int_TypeError v =
     TypeError (''int() argument must be a string, a bytes-like object or a real number, not ''
                @ CHR 0x27 # type_name v @ [CHR 0x27])"

fun py_int :: "pyval \<Rightarrow> exn + int" where
  "py_int (PInt i) = Inr i"
| "py_int (PBool b) = Inr (if b then 1 else 0)"
| "py_int (PStr s) =
     (case parse_int s of
        Some i \<Rightarrow> Inr i
      | None \<Rightarrow> Inl (ValueError (''invalid literal for int() with base 10: '' @ repr_str s)))"
| "py_int v = Inl (int_TypeError v)"

section \<open>The WMI client library and the process-wide state\<close>

text \<open>
  The \<^verbatim>\<open>wmi\<close> and \<^verbatim>\<open>pythoncom\<close> packages are outside the repository. Every call into
  them is recorded in a log, together with whether it returned (\<open>True\<close>) or raised, and
  what a call answers may depend on the whole log so far: \<open>library\<close> is an arbitrary
  deterministic environment. \<open>conn_class\<close> stands for
  \<^verbatim>\<open>getattr(conn, class_name)(**kwargs)\<close>, keyword arguments in the order given, and
  \<open>invoke\<close> for the call of a method of a WMI object.
\<close>

type_synonym handle = nat
type_synonym kwargs = "(string \<times> pyval) list"

datatype call =
    CoInitialize
  | WMI string string
  | conn_query handle string
  | conn_class handle string kwargs
  | invoke string

type_synonym log = "(call \<times> bool) list"

record library =
  CoInitialize_result :: "log \<Rightarrow> exn option"
  WMI_result :: "log \<Rightarrow> string \<Rightarrow> string \<Rightarrow> exn + handle"
  query_result :: "log \<Rightarrow> handle \<Rightarrow> string \<Rightarrow> exn + wmi_obj list"
  class_result :: "log \<Rightarrow> handle \<Rightarrow> string \<Rightarrow> kwargs \<Rightarrow> exn + wmi_obj list"
  invoke_result :: "log \<Rightarrow> wmi_obj \<Rightarrow> string \<Rightarrow> exn + pyval"

type_synonym dict = "(string \<times> pyval) list"

text \<open>What the command-line interface hands to its console.\<close>

datatype console_event =
    print_markup string
  | print_json "dict list"
  | print_table string "string list" "string list list"
  | print_object wmi_obj
  | print_exc exn

text \<open>
  The state shared by the whole process: the log of library calls, the class attribute
  \<^verbatim>\<open>WMIWrapper._com_initialized\<close>, and what has been printed.
\<close>

record world =
  calls :: log
  com_initialized :: bool
  console :: "console_event list"

definition record_call :: "call \<Rightarrow> bool \<Rightarrow> world \<Rightarrow> world" where
  "record_call c ok w = w\<lparr>calls := calls w @ [(c, ok)]\<rparr>"

fun returned :: "exn + 'a \<Rightarrow> bool" where
  "returned (Inl e) = False"
| "returned (Inr x) = True"

section \<open>The access shim: class WMIWrapper\<close>

record WMIWrapper =
  computer :: string
  namespace :: string
  connection :: "handle option"

text \<open>
  \<^verbatim>\<open>__init__\<close>: stores host and namespace, leaves the connection unset, and initialises
  COM once per process; a failure of \<^verbatim>\<open>CoInitialize\<close> is swallowed by the bare
  \<^verbatim>\<open>except\<close> and leaves the flag unset.
\<close>

definition WMIWrapper_init :: "library \<Rightarrow> string \<Rightarrow> string \<Rightarrow> world \<Rightarrow> WMIWrapper \<times> world" where
  "WMIWrapper_init lib host ns w =
     (let self = \<lparr>computer = host, namespace = ns, connection = None\<rparr> in
      if \<not> com_initialized w then
        (case CoInitialize_result lib (calls w) of
           None \<Rightarrow> (self, (record_call CoInitialize True w)\<lparr>com_initialized := True\<rparr>)
         | Some e \<Rightarrow> (self, record_call CoInitialize False w))
      else (self, w))"

definition get_connection ::
  "library \<Rightarrow> WMIWrapper \<Rightarrow> world \<Rightarrow> (exn + handle) \<times> WMIWrapper \<times> world" where
  "get_connection lib self w =
     (case connection self of
        None \<Rightarrow>
          (case WMI_result lib (calls w) (computer self) (namespace self) of
             Inl e \<Rightarrow> (Inl e, self, record_call (WMI (computer self) (namespace self)) False w)
           | Inr h \<Rightarrow> (Inr h, self\<lparr>connection := Some h\<rparr>,
                       record_call (WMI (computer self) (namespace self)) True w))
      | Some h \<Rightarrow> (Inr h, self, w))"

definition query ::
  "library \<Rightarrow> WMIWrapper \<Rightarrow> string \<Rightarrow> world \<Rightarrow> (exn + wmi_obj list) \<times> WMIWrapper \<times> world" where
  "query lib self wql_query w =
     (case get_connection lib self w of
        (Inl e, self', w') \<Rightarrow> (Inl e, self', w')
      | (Inr conn, self', w') \<Rightarrow>
          (let r = query_result lib (calls w') conn wql_query
           in (r, self', record_call (conn_query conn wql_query) (returned r) w')))"

definition get_class ::
  "library \<Rightarrow> WMIWrapper \<Rightarrow> string \<Rightarrow> kwargs \<Rightarrow> world \<Rightarrow>
     (exn + wmi_obj list) \<times> WMIWrapper \<times> world" where
  "get_class lib self class_name kw w =
     (case get_connection lib self w of
        (Inl e, self', w') \<Rightarrow> (Inl e, self', w')
      | (Inr conn, self', w') \<Rightarrow>
          (let r = class_result lib (calls w') conn class_name kw
           in (r, self', record_call (conn_class conn class_name kw) (returned r) w')))"


definition get_processes where
  "get_processes lib self filters w = get_class lib self ''Win32_Process'' filters w"

text \<open>\<^verbatim>\<open>results[0] if results else None\<close>\<close>

fun first_or_None :: "'a list \<Rightarrow> 'a option" where
  "first_or_None [] = None"
| "first_or_None (x # xs) = Some x"

definition singleton_getter ::
  "string \<Rightarrow> library \<Rightarrow> WMIWrapper \<Rightarrow> world \<Rightarrow> (exn + wmi_obj option) \<times> WMIWrapper \<times> world" where
  "singleton_getter class_name lib self w =
     (case get_class lib self class_name [] w of
        (Inl e, self', w') \<Rightarrow> (Inl e, self', w')
      | (Inr results, self', w') \<Rightarrow> (Inr (first_or_None results), self', w'))"

definition get_operating_system where
  "get_operating_system = singleton_getter ''Win32_OperatingSystem''"

definition get_computer_system where
  "get_computer_system = singleton_getter ''Win32_ComputerSystem''"

definition get_bios where
  "get_bios = singleton_getter ''Win32_BIOS''"

definition get_logical_disks where
  "get_logical_disks lib self filters w = get_class lib self ''Win32_LogicalDisk'' filters w"

section \<open>Floating point, as far as the source uses it\<close>

text \<open>
  A Python \<^verbatim>\<open>float\<close> is an IEEE double: a finite value is the rational it denotes.
  \<open>round_double\<close> rounds a rational to the nearest double, ties to even, with gradual
  underflow, and overflows to an infinity. The sign of a zero is not kept.
\<close>

datatype pyfloat = Float rat | PosInf | NegInf | NaN

fun bit_length :: "nat \<Rightarrow> nat" where
  "bit_length n = (if n = 0 then 0 else Suc (bit_length (n div 2)))"

declare bit_length.simps [simp del]

definition pow2 :: "int \<Rightarrow> rat" where
  "pow2 u = (if 0 \<le> u then 2 ^ nat u else 1 / 2 ^ nat (- u))"

definition round_half_even :: "rat \<Rightarrow> int" where
  "round_half_even x =
     (let f = \<lfloor>x\<rfloor>; d = x - of_int f
      in if d < 1 / 2 then f else if 1 / 2 < d then f + 1 else if even f then f else f + 1)"

definition floor_log2 :: "rat \<Rightarrow> int" where
  "floor_log2 a =
     (let (p, q) = quotient_of a;
          d = int (bit_length (nat p)) - int (bit_length (nat q))
      in if pow2 d \<le> a then d else d - 1)"

definition round_double :: "rat \<Rightarrow> pyfloat" where
  "round_double x =
     (if x = 0 then Float 0
      else
        (let a = \<bar>x\<bar>;
             u = max (floor_log2 a - 52) (- 1074);
             v = of_int (round_half_even (a / pow2 u)) * pow2 u
         in if 2 ^ 1024 \<le> v then (if 0 < x then PosInf else NegInf)
            else Float (if 0 < x then v else - v)))"

text \<open>\<^verbatim>\<open>float(i)\<close> for an integer, also implicit in \<^verbatim>\<open>i / 1024.0\<close> and in
  \<^verbatim>\<open>f"{i:.2f}"\<close>: exact below \<open>2 ^ 53\<close>, rounded to 53 significant bits above, and an
  \<^verbatim>\<open>OverflowError\<close> beyond the largest double.\<close>

definition float_of_nat :: "nat \<Rightarrow> exn + rat" where
  "float_of_nat n =
     (if n < 2 ^ 53 then Inr (of_nat n)
      else
        (let e = bit_length n - 53;
             q = n div 2 ^ e;
             r = n mod 2 ^ e;
             q' = (if 2 ^ e < 2 * r \<or> (2 * r = 2 ^ e \<and> odd q) then q + 1 else q)
         in if 2 ^ 1024 \<le> q' * 2 ^ e
            then Inl (OverflowError ''int too large to convert to float'')
            else Inr (of_nat (q' * 2 ^ e))))"

definition float_of_int :: "int \<Rightarrow> exn + rat" where
  "float_of_int i =
     (if i < 0 then (case float_of_nat (nat (- i)) of Inl e \<Rightarrow> Inl e | Inr x \<Rightarrow> Inr (- x))
      else float_of_nat (nat i))"

text \<open>\<^verbatim>\<open>a / b\<close> on two integers: the correctly rounded quotient.\<close>

definition int_truediv :: "int \<Rightarrow> int \<Rightarrow> exn + pyfloat" where
  "int_truediv a b =
     (if b = 0 then Inl (ZeroDivisionError ''division by zero'')
      else
        (case round_double (of_int a / of_int b) of
           Float x \<Rightarrow> Inr (Float x)
         | _ \<Rightarrow> Inl (OverflowError ''integer division result too large for a float'')))"

fun float_sgn :: "pyfloat \<Rightarrow> int option" where
  "float_sgn (Float x) = Some (if x < 0 then - 1 else if x = 0 then 0 else 1)"
| "float_sgn PosInf = Some 1"
| "float_sgn NegInf = Some (- 1)"
| "float_sgn NaN = None"

text \<open>\<^verbatim>\<open>x * y\<close> on floats never raises: it overflows to an infinity.\<close>

fun float_mul :: "pyfloat \<Rightarrow> pyfloat \<Rightarrow> pyfloat" where
  "float_mul (Float a) (Float b) = round_double (a * b)"
| "float_mul x y =
     (case (float_sgn x, float_sgn y) of
        (Some s, Some t) \<Rightarrow> (if s * t = 0 then NaN else if 0 < s * t then PosInf else NegInf)
      | _ \<Rightarrow> NaN)"

text \<open>
  The format specification \<^verbatim>\<open>.Nf\<close>: the decimal with \<open>N\<close> digits after the point that
  is nearest to the exact value of the double, ties to even.
\<close>

definition format_f :: "nat \<Rightarrow> pyfloat \<Rightarrow> string" where
  "format_f p x =
     (case x of
        Float r \<Rightarrow>
          (let m = nat (round_half_even (\<bar>r\<bar> * 10 ^ p));
               frac = str_nat (m mod 10 ^ p)
           in (if r < 0 then ''-'' else '''') @ str_nat (m div 10 ^ p) @
              (if p = 0 then '''' else ''.'' @ replicate (p - length frac) CHR ''0'' @ frac))
      | PosInf \<Rightarrow> ''inf''
      | NegInf \<Rightarrow> ''-inf''
      | NaN \<Rightarrow> ''nan'')"

section \<open>Module-level helpers of the shim\<close>

text \<open>
  \<^verbatim>\<open>format_bytes\<close>. The loop variable starts as the integer argument and is a float
  after the first division; \<open>num\<close> is that union. Dividing a finite double that is at
  least 1024 by \<^verbatim>\<open>1024.0\<close> only lowers its exponent, so the quotient is exact.
\<close>

datatype num = NInt int | NFloat pyfloat

fun float_less :: "pyfloat \<Rightarrow> rat \<Rightarrow> bool" where
  "float_less (Float x) c = (x < c)"
| "float_less NegInf c = True"
| "float_less PosInf c = False"
| "float_less NaN c = False"

fun float_div_1024 :: "pyfloat \<Rightarrow> pyfloat" where
  "float_div_1024 (Float x) = Float (x / 1024)"
| "float_div_1024 x = x"

fun num_less_1024 :: "num \<Rightarrow> bool" where
  "num_less_1024 (NInt i) = (i < 1024)"
| "num_less_1024 (NFloat x) = float_less x 1024"

fun num_div_1024 :: "num \<Rightarrow> exn + num" where
  "num_div_1024 (NInt i) =
     (case float_of_int i of Inl e \<Rightarrow> Inl e | Inr x \<Rightarrow> Inr (NFloat (float_div_1024 (Float x))))"
| "num_div_1024 (NFloat x) = Inr (NFloat (float_div_1024 x))"

text \<open>\<^verbatim>\<open>f"{value:.Nf}"\<close> on an integer or a float.\<close>

fun num_format_f :: "nat \<Rightarrow> num \<Rightarrow> exn + string" where
  "num_format_f p (NInt i) =
     (case float_of_int i of Inl e \<Rightarrow> Inl e | Inr x \<Rightarrow> Inr (format_f p (Float x)))"
| "num_format_f p (NFloat x) = Inr (format_f p x)"

definition with_unit :: "num \<Rightarrow> string \<Rightarrow> exn + string" where
  "with_unit v unit_name =
     (case num_format_f 2 v of Inl e \<Rightarrow> Inl e | Inr s \<Rightarrow> Inr (s @ '' '' @ unit_name))"

fun format_bytes_loop :: "string list \<Rightarrow> num \<Rightarrow> exn + string" where
  "format_bytes_loop [] bytes_value = with_unit bytes_value ''PB''"
| "format_bytes_loop (unit_name # units) bytes_value =
     (if num_less_1024 bytes_value then with_unit bytes_value unit_name
      else
        (case num_div_1024 bytes_value of
           Inl e \<Rightarrow> Inl e
         | Inr v \<Rightarrow> format_bytes_loop units v))"

definition format_bytes :: "int \<Rightarrow> exn + string" where
  "format_bytes bytes_value =
     format_bytes_loop [''B'', ''KB'', ''MB'', ''GB'', ''TB''] (NInt bytes_value)"

text \<open>
  \<^verbatim>\<open>wmi_object_to_dict\<close>. The result dictionary is an association list in insertion
  order (\<open>dict\<close>); \<open>dict_set\<close> is \<^verbatim>\<open>result[prop] = value\<close>.
\<close>

fun dict_set :: "dict \<Rightarrow> string \<Rightarrow> pyval \<Rightarrow> dict" where
  "dict_set [] k v = [(k, v)]"
| "dict_set ((k', v') # kvs) k v =
     (if k' = k then (k, v) # kvs else (k', v') # dict_set kvs k v)"

fun startswith_underscore :: "string \<Rightarrow> bool" where
  "startswith_underscore [] = False"
| "startswith_underscore (c # cs) = (c = CHR ''_'')"

fun to_dict_loop :: "wmi_obj \<Rightarrow> string list \<Rightarrow> dict \<Rightarrow> dict" where
  "to_dict_loop obj [] result = result"
| "to_dict_loop obj (prop # props) result =
     (case obj_getattr obj prop of
        Inr val \<Rightarrow>
          (if callable val then to_dict_loop obj props result
           else to_dict_loop obj props (dict_set result prop val))
      | Inl e \<Rightarrow> to_dict_loop obj props (dict_set result prop PNone))"

text \<open>The properties converted: the given list, or every name of \<^verbatim>\<open>dir(obj)\<close> that
  does not start with an underscore when none is given.\<close>

definition requested_properties :: "wmi_obj \<Rightarrow> string list option \<Rightarrow> string list" where
  "requested_properties obj properties =
     (case properties of
        None \<Rightarrow> filter (\<lambda>prop. \<not> startswith_underscore prop) (obj_dir obj)
      | Some props \<Rightarrow> props)"

definition wmi_object_to_dict :: "wmi_obj \<Rightarrow> string list option \<Rightarrow> dict" where
  "wmi_object_to_dict obj properties = to_dict_loop obj (requested_properties obj properties) []"

section \<open>Domain query modules\<close>

text \<open>
  A module object (\<^verbatim>\<open>ServiceManager\<close>, \<^verbatim>\<open>SystemMonitor\<close>, \<^verbatim>\<open>EventLogReader\<close>) holds
  nothing but its own \<^verbatim>\<open>WMIWrapper\<close>; its methods are modelled on that wrapper.
  \<open>and_then\<close> sequences two steps of which the first may raise.
\<close>

fun and_then :: "exn + 'a \<Rightarrow> ('a \<Rightarrow> exn + 'b) \<Rightarrow> exn + 'b" where
  "and_then (Inl e) f = Inl e"
| "and_then (Inr x) f = f x"


subsection \<open>ServiceManager\<close>



subsection \<open>SystemMonitor\<close>

record memory_info =
  total_bytes :: int
  used_bytes :: int
  free_bytes :: int
  used_percentage :: pyfloat

text \<open>The arithmetic of \<^verbatim>\<open>get_memory_info\<close>, after both records have been fetched.\<close>

definition memory_info_of :: "wmi_obj option \<Rightarrow> wmi_obj option \<Rightarrow> exn + memory_info" where
  "memory_info_of cs os_info =
     and_then (getattr_opt cs ''TotalPhysicalMemory'') (\<lambda>total_attr.
     and_then (py_int total_attr) (\<lambda>total_memory.
     and_then (getattr_opt os_info ''FreePhysicalMemory'') (\<lambda>free_attr.
     and_then (py_int free_attr) (\<lambda>free_kb.
       (let free_memory = free_kb * 1024;
            used_memory = total_memory - free_memory
        in and_then (int_truediv used_memory total_memory) (\<lambda>q.
             Inr \<lparr>total_bytes = total_memory, used_bytes = used_memory,
                  free_bytes = free_memory,
                  used_percentage = float_mul q (Float 100)\<rparr>))))))"

definition get_memory_info ::
  "library \<Rightarrow> WMIWrapper \<Rightarrow> world \<Rightarrow> (exn + memory_info) \<times> WMIWrapper \<times> world" where
  "get_memory_info lib self w =
     (case get_computer_system lib self w of
        (Inl e, self1, w1) \<Rightarrow> (Inl e, self1, w1)
      | (Inr cs, self1, w1) \<Rightarrow>
          (case get_operating_system lib self1 w1 of
             (Inl e, self2, w2) \<Rightarrow> (Inl e, self2, w2)
           | (Inr os_info, self2, w2) \<Rightarrow> (memory_info_of cs os_info, self2, w2)))"

record disk_usage =
  device_id :: pyval
  label :: pyval
  file_system :: pyval
  size_bytes :: int
  disk_used_bytes :: int
  disk_free_bytes :: int
  disk_used_percentage :: pyfloat

text \<open>\<^verbatim>\<open>value or ""\<close>\<close>

definition or_empty :: "pyval \<Rightarrow> pyval" where
  "or_empty v = (if truthy v then v else PStr '''')"

text \<open>\<^verbatim>\<open>int(disk.FreeSpace) if disk.FreeSpace else 0\<close>, for any attribute.\<close>

definition int_or_zero :: "wmi_obj \<Rightarrow> string \<Rightarrow> exn + int" where
  "int_or_zero obj name =
     and_then (obj_getattr obj name) (\<lambda>cond.
       if truthy cond then and_then (obj_getattr obj name) py_int else Inr 0)"

text \<open>
  One round of the loop of \<^verbatim>\<open>get_disk_usage\<close>: \<open>None\<close> when \<^verbatim>\<open>disk.Size\<close> is
  falsy and the disk is skipped.
\<close>

definition disk_usage_entry :: "wmi_obj \<Rightarrow> exn + disk_usage option" where
  "disk_usage_entry disk =
     and_then (obj_getattr disk ''Size'') (\<lambda>cond.
       if truthy cond then
         and_then (obj_getattr disk ''Size'') (\<lambda>size_attr.
         and_then (py_int size_attr) (\<lambda>size.
         and_then (int_or_zero disk ''FreeSpace'') (\<lambda>free.
         (let used = size - free in
         and_then (obj_getattr disk ''DeviceID'') (\<lambda>dev.
         and_then (obj_getattr disk ''VolumeName'') (\<lambda>vol.
         and_then (obj_getattr disk ''FileSystem'') (\<lambda>fs.
         and_then (int_truediv used size) (\<lambda>q.
           Inr (Some \<lparr>device_id = dev, label = or_empty vol, file_system = fs,
                      size_bytes = size, disk_used_bytes = used, disk_free_bytes = free,
                      disk_used_percentage = float_mul q (Float 100)\<rparr>)))))))))
       else Inr None)"

fun disk_usage_loop :: "wmi_obj list \<Rightarrow> disk_usage list \<Rightarrow> exn + disk_usage list" where
  "disk_usage_loop [] result = Inr result"
| "disk_usage_loop (disk # disks) result =
     (case disk_usage_entry disk of
        Inl e \<Rightarrow> Inl e
      | Inr None \<Rightarrow> disk_usage_loop disks result
      | Inr (Some entry) \<Rightarrow> disk_usage_loop disks (result @ [entry]))"

definition get_disk_usage ::
  "library \<Rightarrow> WMIWrapper \<Rightarrow> world \<Rightarrow> (exn + disk_usage list) \<times> WMIWrapper \<times> world" where
  "get_disk_usage lib self w =
     (case get_logical_disks lib self [(''DriveType'', PInt 3)] w of
        (Inl e, self', w') \<Rightarrow> (Inl e, self', w')
      | (Inr disks, self', w') \<Rightarrow> (disk_usage_loop disks [], self', w'))"

subsection \<open>EventLogReader\<close>

text \<open>The slice \<^verbatim>\<open>xs[:limit]\<close>; a negative limit counts from the end.\<close>

definition slice_to :: "'a list \<Rightarrow> int \<Rightarrow> 'a list" where
  "slice_to xs limit =
     (if 0 \<le> limit then take (nat limit) xs else take (length xs - nat (- limit)) xs)"

definition recent_events_query :: "string \<Rightarrow> int option \<Rightarrow> string" where
  "recent_events_query log_name event_type =
     ''SELECT * FROM Win32_NTLogEvent WHERE Logfile = '' @ CHR 0x27 # log_name @ [CHR 0x27] @
     (case event_type of
        None \<Rightarrow> ''''
      | Some t \<Rightarrow> (if t \<noteq> 0 then '' AND Type = '' @ str_int t else ''''))"

definition get_recent_events ::
  "library \<Rightarrow> WMIWrapper \<Rightarrow> string \<Rightarrow> int option \<Rightarrow> int \<Rightarrow> world \<Rightarrow>
     (exn + dict list) \<times> WMIWrapper \<times> world" where
  "get_recent_events lib self log_name event_type limit w =
     (case query lib self (recent_events_query log_name event_type) w of
        (Inl e, self', w') \<Rightarrow> (Inl e, self', w')
      | (Inr events, self', w') \<Rightarrow>
          (Inr (map (\<lambda>e. wmi_object_to_dict e None) (slice_to events limit)), self', w'))"

section \<open>Agent tools\<close>

text \<open>
  The module globals \<^verbatim>\<open>_wrapper\<close>, \<^verbatim>\<open>_system_mon\<close> and \<^verbatim>\<open>_process_mgr\<close> are
  assigned together by \<^verbatim>\<open>_init_wmi\<close> and by nothing else: the state is either
  \<open>None\<close> (all three unset) or the three wrappers they hold.
\<close>

type_synonym tools_state = "(WMIWrapper \<times> WMIWrapper \<times> WMIWrapper) option"

definition default_namespace :: string where
  "default_namespace = ''root'' @ CHR 0x5C # ''cimv2''"

definition init_wmi :: "library \<Rightarrow> tools_state \<Rightarrow> world \<Rightarrow> (WMIWrapper \<times> WMIWrapper \<times> WMIWrapper) \<times> world" where
  "init_wmi lib st w =
     (case st of
        Some globals \<Rightarrow> (globals, w)
      | None \<Rightarrow>
          (case WMIWrapper_init lib ''.'' default_namespace w of (wrapper, w1) \<Rightarrow>
          (case WMIWrapper_init lib ''.'' default_namespace w1 of (system_mon, w2) \<Rightarrow>
          (case WMIWrapper_init lib ''.'' default_namespace w2 of (process_mgr, w3) \<Rightarrow>
             ((wrapper, system_mon, process_mgr), w3)))))"

text \<open>
  \<^verbatim>\<open>try: ... except Exception as e: return f"<prefix>{str(e)}"\<close>, the frame of every
  tool: each tool below is the body of its \<^verbatim>\<open>try\<close> block inside this frame.
\<close>

definition except_return :: "string \<Rightarrow> exn + string \<Rightarrow> exn + string" where
  "except_return prefix body = (case body of Inl e \<Rightarrow> Inr (prefix @ exn_str e) | Inr s \<Rightarrow> Inr s)"

definition attr_str :: "wmi_obj option \<Rightarrow> string \<Rightarrow> exn + string" where
  "attr_str obj name = and_then (getattr_opt obj name) (\<lambda>v. Inr (py_str v))"








text \<open>
  The used-percentage expression of the tool \<^verbatim>\<open>get_disk_info\<close>:
  \<^verbatim>\<open>((total_space - free_space) / total_space * 100) if total_space > 0 else 0\<close>.
\<close>

definition get_disk_info_used_pct :: "int \<Rightarrow> int \<Rightarrow> exn + num" where
  "get_disk_info_used_pct total_space free_space =
     (if 0 < total_space then
        and_then (int_truediv (total_space - free_space) total_space) (\<lambda>q.
          Inr (NFloat (float_mul q (Float 100))))
      else Inr (NInt 0))"





definition list_services_query :: "string option \<Rightarrow> string" where
  "list_services_query state =
     (case state of
        None \<Rightarrow> ''SELECT Name, DisplayName, State, StartMode, Status FROM Win32_Service''
      | Some s \<Rightarrow>
          (if s \<noteq> '''' then
             ''SELECT Name, DisplayName, State, StartMode, Status FROM Win32_Service WHERE State = ''
               @ CHR 0x27 # s @ [CHR 0x27]
           else ''SELECT Name, DisplayName, State, StartMode, Status FROM Win32_Service''))"

text \<open>The two lines of one service, numbered from 1.\<close>

definition service_lines :: "nat \<Rightarrow> wmi_obj \<Rightarrow> exn + string" where
  "service_lines i svc =
     and_then (attr_str (Some svc) ''Name'') (\<lambda>name.
     and_then (attr_str (Some svc) ''State'') (\<lambda>state.
     and_then (attr_str (Some svc) ''DisplayName'') (\<lambda>display.
       Inr (''  '' @ str_nat i @ ''. '' @ name @ '' - '' @ state @ ''\<newline>'' @
            ''     Display: '' @ display @ ''\<newline>''))))"

fun services_loop :: "nat \<Rightarrow> wmi_obj list \<Rightarrow> string \<Rightarrow> exn + string" where
  "services_loop i [] result = Inr result"
| "services_loop i (svc # svcs) result =
     and_then (service_lines i svc) (\<lambda>text. services_loop (Suc i) svcs (result @ text))"

definition services_text :: "wmi_obj list \<Rightarrow> exn + string" where
  "services_text services =
     and_then (services_loop 1 (take 20 services)
                 (''Windows Services ('' @ str_nat (length services) @ ''):\<newline>''))
       (\<lambda>result.
          Inr (if 20 < length services
               then result @ ''\<newline>  ... and '' @ str_nat (length services - 20) @
                    '' more services\<newline>''
               else result))"

definition list_services_body ::
  "library \<Rightarrow> string option \<Rightarrow> tools_state \<Rightarrow> world \<Rightarrow> (exn + string) \<times> tools_state \<times> world" where
  "list_services_body lib state st w =
     (case init_wmi lib st w of ((wrapper, system_mon, process_mgr), w0) \<Rightarrow>
     (case query lib wrapper (list_services_query state) w0 of
        (r, wr1, w1) \<Rightarrow> (and_then r services_text, Some (wr1, system_mon, process_mgr), w1)))"

definition list_services ::
  "library \<Rightarrow> string option \<Rightarrow> tools_state \<Rightarrow> world \<Rightarrow> (exn + string) \<times> tools_state \<times> world" where
  "list_services lib state st w =
     (case list_services_body lib state st w of
        (r, st', w') \<Rightarrow> (except_return ''Error listing services: '' r, st', w'))"

section \<open>Command-line interface\<close>










text \<open>
  The used-percentage of a row of the command \<^verbatim>\<open>disks\<close>:
  \<^verbatim>\<open>size = int(disk.Size) if disk.Size else 0\<close>, the same for the free space, and
  \<^verbatim>\<open>((size - free) / size * 100) if size > 0 else 0\<close>.
\<close>

definition disks_used_pct :: "wmi_obj \<Rightarrow> exn + num" where
  "disks_used_pct disk =
     and_then (int_or_zero disk ''Size'') (\<lambda>size.
     and_then (int_or_zero disk ''FreeSpace'') (\<lambda>free.
       if 0 < size then
         and_then (int_truediv (size - free) size) (\<lambda>q. Inr (NFloat (float_mul q (Float 100))))
       else Inr (NInt 0)))"

section \<open>Boot time and uptime\<close>





























section \<open>Scenarios\<close>

text \<open>
  Repeated use of one instance: \<open>n\<close> calls of \<^verbatim>\<open>get_connection\<close> in a row, with the
  outcome of each. \<open>created\<close> counts the connections the library has handed out.
\<close>

fun get_connection_times ::
  "nat \<Rightarrow> library \<Rightarrow> WMIWrapper \<Rightarrow> world \<Rightarrow> (exn + handle) list \<times> WMIWrapper \<times> world" where
  "get_connection_times 0 lib self w = ([], self, w)"
| "get_connection_times (Suc n) lib self w =
     (case get_connection lib self w of
        (r, self', w') \<Rightarrow>
          (case get_connection_times n lib self' w' of
             (rs, self'', w'') \<Rightarrow> (r # rs, self'', w'')))"

fun is_created :: "call \<times> bool \<Rightarrow> bool" where
  "is_created (WMI host ns, ok) = ok"
| "is_created _ = False"

definition created :: "world \<Rightarrow> nat" where
  "created w = length (filter is_created (calls w))"

text \<open>
  A plain record with the given properties, and a mocked library: every connection
  succeeds, every query and every class fetch answers with the same fixed records, whatever
  the query text or the filter.
\<close>

definition record_of :: "dict \<Rightarrow> wmi_obj" where
  "record_of props =
     \<lparr>obj_dir = map fst props,
      obj_getattr = (\<lambda>name. case map_of props name of
                               Some v \<Rightarrow> Inr v
                             | None \<Rightarrow> Inl (AttributeError name)),
      obj_properties = Inr (map fst props)\<rparr>"

definition mock_handle :: handle where
  "mock_handle = 1"

definition mock_library :: "wmi_obj list \<Rightarrow> library" where
  "mock_library records =
     \<lparr>CoInitialize_result = (\<lambda>log. None),
      WMI_result = (\<lambda>log host ns. Inr mock_handle),
      query_result = (\<lambda>log conn wql. Inr records),
      class_result = (\<lambda>log conn class_name kw. Inr records),
      invoke_result = (\<lambda>log obj method_name. Inr (PTuple [PInt 0]))\<rparr>"

definition fresh_world :: world where
  "fresh_world = \<lparr>calls = [], com_initialized = False, console = []\<rparr>"

definition local_wrapper :: WMIWrapper where
  "local_wrapper = \<lparr>computer = ''.'', namespace = default_namespace, connection = None\<rparr>"

definition spooler :: wmi_obj where
  "spooler = record_of [(''Name'', PStr ''Spooler''), (''DisplayName'', PStr ''Print Spooler''),
                        (''State'', PStr ''Running'')]"

definition fax :: wmi_obj where
  "fax = record_of [(''Name'', PStr ''Fax''), (''DisplayName'', PStr ''Fax''),
                    (''State'', PStr ''Stopped'')]"

text \<open>
  The unit ladder as the specification words it: the mantissa of \<open>n\<close> in unit \<open>k\<close> is
  \<open>n\<close> divided by 1024 once per step, a unit fits when that mantissa is below 1024, and
  the unit to use is the smallest that fits, the last one (PB) when none does.
\<close>

definition unit_names :: "string list" where
  "unit_names = [''B'', ''KB'', ''MB'', ''GB'', ''TB'', ''PB'']"

definition mantissa :: "int \<Rightarrow> nat \<Rightarrow> rat" where
  "mantissa n k = of_int n / 1024 ^ k"

definition unit_fits :: "int \<Rightarrow> nat \<Rightarrow> bool" where
  "unit_fits n k = (mantissa n k < 1024)"

definition unit_index :: "int \<Rightarrow> nat" where
  "unit_index n = (case find (unit_fits n) [0, 1, 2, 3, 4, 5] of Some k \<Rightarrow> k | None \<Rightarrow> 5)"






definition sample_service :: wmi_obj where
  "sample_service =
     \<lparr>obj_dir = [''Name'', ''StartService'', ''Status'', ''_wmi_handle''],
      obj_getattr = (\<lambda>name.
        if name = ''Name'' then Inr (PStr ''Spooler'')
        else if name = ''StartService'' then Inr (PCallable ''<method StartService>'')
        else Inl (x_wmi ''access denied'')),
      obj_properties = Inr [''Name'', ''Status'']\<rparr>"


definition state_filtering_library :: library where
  "state_filtering_library =
     \<lparr>CoInitialize_result = (\<lambda>log. None),
      WMI_result = (\<lambda>log host ns. Inr mock_handle),
      query_result = (\<lambda>log conn wql.
        if wql = list_services_query (Some ''Running'') then Inr [spooler]
        else if wql = list_services_query (Some ''Stopped'') then Inr [fax]
        else Inr [spooler, fax]),
      class_result = (\<lambda>log conn class_name kw. Inr [spooler, fax]),
      invoke_result = (\<lambda>log obj method_name. Inr (PTuple [PInt 0]))\<rparr>"

definition zero_memory :: wmi_obj where
  "zero_memory = record_of [(''TotalPhysicalMemory'', PStr ''0''), (''FreePhysicalMemory'', PStr ''0'')]"

definition zero_disk :: wmi_obj where
  "zero_disk = record_of [(''DeviceID'', PStr ''E:''), (''VolumeName'', PNone),
                          (''FileSystem'', PStr ''NTFS''), (''Size'', PStr ''0''),
                          (''FreeSpace'', PStr ''0'')]"


definition initialised_world :: world where
  "initialised_world = (record_call CoInitialize True fresh_world)\<lparr>com_initialized := True\<rparr>"

section \<open>Facts about the builtins\<close>

lemma str_nat_digit: "n < 10 \<Longrightarrow> str_nat n = [digit_char n]"
  by (subst str_nat.simps) simp


section \<open>Facts about the mocked library\<close>

lemma get_connection_mock:
  "get_connection (mock_library rs) local_wrapper w =
     (Inr mock_handle, local_wrapper\<lparr>connection := Some mock_handle\<rparr>,
      record_call (WMI ''.'' default_namespace) True w)"
  by (simp add: get_connection_def mock_library_def local_wrapper_def)

lemma get_connection_mock_connected:
  "get_connection lib (local_wrapper\<lparr>connection := Some mock_handle\<rparr>) w =
     (Inr mock_handle, local_wrapper\<lparr>connection := Some mock_handle\<rparr>, w)"
  by (simp add: get_connection_def)

lemma get_class_mock:
  "get_class (mock_library rs) local_wrapper class_name kw w =
     (Inr rs, local_wrapper\<lparr>connection := Some mock_handle\<rparr>,
      record_call (conn_class mock_handle class_name kw) True
        (record_call (WMI ''.'' default_namespace) True w))"
  by (simp add: get_class_def get_connection_mock) (simp add: mock_library_def)

lemma query_mock:
  "query (mock_library rs) local_wrapper wql w =
     (Inr rs, local_wrapper\<lparr>connection := Some mock_handle\<rparr>,
      record_call (conn_query mock_handle wql) True
        (record_call (WMI ''.'' default_namespace) True w))"
  by (simp add: query_def get_connection_mock) (simp add: mock_library_def)

lemma WMIWrapper_init_mock:
  "WMIWrapper_init (mock_library rs) ''.'' default_namespace fresh_world =
     (local_wrapper, (record_call CoInitialize True fresh_world)\<lparr>com_initialized := True\<rparr>)"
  by (simp add: WMIWrapper_init_def mock_library_def local_wrapper_def fresh_world_def)

section \<open>The singleton getters of the shim\<close>

lemma singleton_getter_result:
  "get_class lib self class_name [] w = (Inr results, self', w') \<Longrightarrow>
   singleton_getter class_name lib self w = (Inr (first_or_None results), self', w')"
  by (simp add: singleton_getter_def)

lemma singleton_getter_raises:
  "get_class lib self class_name [] w = (Inl e, self', w') \<Longrightarrow>
   singleton_getter class_name lib self w = (Inl e, self', w')"
  by (simp add: singleton_getter_def)

text \<open>
  C10. When the class fetch returns an empty sequence, \<^verbatim>\<open>get_operating_system\<close>,
  \<^verbatim>\<open>get_computer_system\<close> and \<^verbatim>\<open>get_bios\<close> return \<^verbatim>\<open>None\<close> and do not raise;
  when it returns a non-empty sequence, each returns its first element. The wrapper and the
  world are left as the fetch left them.
\<close>

theorem singleton_getters_first_or_None:
  "(get_class lib self ''Win32_OperatingSystem'' [] w = (Inr [], self', w') \<longrightarrow>
      get_operating_system lib self w = (Inr None, self', w')) \<and>
   (get_class lib self ''Win32_OperatingSystem'' [] w = (Inr (x # xs), self', w') \<longrightarrow>
      get_operating_system lib self w = (Inr (Some x), self', w')) \<and>
   (get_class lib self ''Win32_ComputerSystem'' [] w = (Inr [], self', w') \<longrightarrow>
      get_computer_system lib self w = (Inr None, self', w')) \<and>
   (get_class lib self ''Win32_ComputerSystem'' [] w = (Inr (x # xs), self', w') \<longrightarrow>
      get_computer_system lib self w = (Inr (Some x), self', w')) \<and>
   (get_class lib self ''Win32_BIOS'' [] w = (Inr [], self', w') \<longrightarrow>
      get_bios lib self w = (Inr None, self', w')) \<and>
   (get_class lib self ''Win32_BIOS'' [] w = (Inr (x # xs), self', w') \<longrightarrow>
      get_bios lib self w = (Inr (Some x), self', w'))"
  by (simp add: get_operating_system_def get_computer_system_def get_bios_def
        singleton_getter_result)

theorem singleton_getters_first_or_None_witness:
  "get_operating_system (mock_library []) local_wrapper fresh_world =
     (Inr None, local_wrapper\<lparr>connection := Some mock_handle\<rparr>,
      record_call (conn_class mock_handle ''Win32_OperatingSystem'' []) True
        (record_call (WMI ''.'' default_namespace) True fresh_world)) \<and>
   get_bios (mock_library [spooler, fax]) local_wrapper fresh_world =
     (Inr (Some spooler), local_wrapper\<lparr>connection := Some mock_handle\<rparr>,
      record_call (conn_class mock_handle ''Win32_BIOS'' []) True
        (record_call (WMI ''.'' default_namespace) True fresh_world))"
  using singleton_getters_first_or_None
          [of "mock_library []" local_wrapper fresh_world
              "local_wrapper\<lparr>connection := Some mock_handle\<rparr>"
              "record_call (conn_class mock_handle ''Win32_OperatingSystem'' []) True
                 (record_call (WMI ''.'' default_namespace) True fresh_world)"]
        singleton_getters_first_or_None
          [of "mock_library [spooler, fax]" local_wrapper fresh_world
              "local_wrapper\<lparr>connection := Some mock_handle\<rparr>" _ spooler "[fax]"]
  by (simp add: get_class_mock)

section \<open>The lazily created connection\<close>

lemma get_connection_connected:
  "connection self = Some h \<Longrightarrow> get_connection lib self w = (Inr h, self, w)"
  by (simp add: get_connection_def)

lemma get_connection_success:
  "get_connection lib self w = (Inr h, self', w') \<Longrightarrow> connection self' = Some h"
  by (auto simp: get_connection_def split: option.splits sum.splits)

lemma get_connection_failure:
  "get_connection lib self w = (Inl e, self', w') \<Longrightarrow>
   self' = self \<and> connection self = None \<and> created w' = created w"
  by (auto simp: get_connection_def created_def record_call_def split: option.splits sum.splits)

lemma get_connection_created:
  "get_connection lib self w = (Inr h, self', w') \<Longrightarrow>
   created w' = (if connection self = None then Suc (created w) else created w)"
  by (auto simp: get_connection_def created_def record_call_def split: option.splits sum.splits)

lemma get_connection_times_connected:
  "connection self = Some h \<Longrightarrow>
   get_connection_times n lib self w = (replicate n (Inr h), self, w)"
  by (induction n) (simp_all add: get_connection_connected)

text \<open>
  From an unconnected instance, a run of calls is a run of failures followed by successes
  that all yield one handle; the library hands out a connection in the second case only,
  and only one.
\<close>

lemma get_connection_times_shape:
  "get_connection_times n lib self w = (rs, self', w') \<Longrightarrow> connection self = None \<Longrightarrow>
   (\<exists>es. rs = map Inl es \<and> created w' = created w) \<or>
   (\<exists>es h m. rs = map Inl es @ replicate (Suc m) (Inr h) \<and> created w' = Suc (created w))"
proof (induction n arbitrary: self w rs self' w')
  case 0
  then show ?case by simp
next
  case (Suc n)
  obtain r self1 w1 where step: "get_connection lib self w = (r, self1, w1)"
    by (cases "get_connection lib self w") auto
  obtain rs1 self2 w2 where rest: "get_connection_times n lib self1 w1 = (rs1, self2, w2)"
    by (cases "get_connection_times n lib self1 w1") auto
  from Suc.prems(1) step rest have rs: "rs = r # rs1" and w': "w' = w2" by simp_all
  show ?case
  proof (cases r)
    case (Inl e)
    with step have same: "self1 = self" "created w1 = created w"
      using get_connection_failure by blast+
    from Suc.IH[OF rest] same Suc.prems(2)
    consider es where "rs1 = map Inl es" "created w2 = created w"
      | es h m where "rs1 = map Inl es @ replicate (Suc m) (Inr h)" "created w2 = Suc (created w)"
      by auto
    then show ?thesis
    proof cases
      case 1
      then have "rs = map Inl (e # es)" using rs Inl by simp
      with 1 w' show ?thesis by blast
    next
      case 2
      then have "rs = map Inl (e # es) @ replicate (Suc m) (Inr h)" using rs Inl by simp
      with 2 w' show ?thesis by blast
    qed
  next
    case (Inr h)
    with step have conn: "connection self1 = Some h"
      using get_connection_success by blast
    from step Inr Suc.prems(2) have cr: "created w1 = Suc (created w)"
      using get_connection_created by fastforce
    from rest conn have "rs1 = replicate n (Inr h)" "w2 = w1"
      by (simp_all add: get_connection_times_connected)
    then have "rs = map Inl [] @ replicate (Suc n) (Inr h)" "created w' = Suc (created w)"
      using rs Inr w' cr by simp_all
    then show ?thesis by blast
  qed
qed

lemma WMIWrapper_init_lazy:
  "WMIWrapper_init lib host ns w = (self, w') \<Longrightarrow>
   connection self = None \<and> created w' = created w"
  by (auto simp: WMIWrapper_init_def Let_def created_def record_call_def
           split: if_splits option.splits)

text \<open>
  C7. For every wrapper instance the connection handle is created at most once.
  \<^verbatim>\<open>__init__\<close> creates none (the instance starts unconnected); over any number of calls
  of \<^verbatim>\<open>get_connection\<close> on the instance the library hands out at most one connection,
  and the outcomes are failed attempts followed by successes that all return one handle;
  once a call has returned a handle, every later call returns that handle and leaves the
  instance and the world untouched.
\<close>

theorem connection_created_at_most_once:
  assumes "WMIWrapper_init lib host ns w0 = (self0, w1)"
    and "get_connection_times n lib self0 w1 = (rs, self', w')"
  shows "connection self0 = None \<and> created w1 = created w0 \<and>
         created w' \<le> created w0 + 1 \<and>
         (\<exists>es h m. rs = map Inl es @ replicate m (Inr h)) \<and>
         (\<forall>self1 w2 h self2 w3 w4.
            get_connection lib self1 w2 = (Inr h, self2, w3) \<longrightarrow>
            get_connection lib self2 w4 = (Inr h, self2, w4))"
proof -
  from assms(1) have lazy: "connection self0 = None" "created w1 = created w0"
    using WMIWrapper_init_lazy by blast+
  from get_connection_times_shape[OF assms(2) lazy(1)]
  consider es where "rs = map Inl es" "created w' = created w1"
    | es h m where "rs = map Inl es @ replicate (Suc m) (Inr h)" "created w' = Suc (created w1)"
    by auto
  then have shape: "created w' \<le> created w0 + 1 \<and>
      (\<exists>es h m. rs = map Inl es @ replicate m (Inr h))"
  proof cases
    case 1
    then have "rs = map Inl es @ replicate 0 (Inr 0)" by simp
    then show ?thesis using 1 lazy by (metis le_add1)
  next
    case 2
    then show ?thesis using lazy by (metis Suc_eq_plus1 order_refl)
  qed
  have idem: "\<forall>self1 w2 h self2 w3 w4.
            get_connection lib self1 w2 = (Inr h, self2, w3) \<longrightarrow>
            get_connection lib self2 w4 = (Inr h, self2, w4)"
    using get_connection_success get_connection_connected by blast
  from lazy shape idem show ?thesis by blast
qed

theorem connection_created_at_most_once_witness:
  "WMIWrapper_init (mock_library []) ''.'' default_namespace fresh_world =
     (local_wrapper, (record_call CoInitialize True fresh_world)\<lparr>com_initialized := True\<rparr>) \<and>
   get_connection_times 2 (mock_library []) local_wrapper
       ((record_call CoInitialize True fresh_world)\<lparr>com_initialized := True\<rparr>) =
     ([Inr mock_handle, Inr mock_handle], local_wrapper\<lparr>connection := Some mock_handle\<rparr>,
      record_call (WMI ''.'' default_namespace) True
        ((record_call CoInitialize True fresh_world)\<lparr>com_initialized := True\<rparr>)) \<and>
   connection local_wrapper = None \<and>
   created (record_call (WMI ''.'' default_namespace) True
        ((record_call CoInitialize True fresh_world)\<lparr>com_initialized := True\<rparr>))
     \<le> created fresh_world + 1"
proof -
  have init: "WMIWrapper_init (mock_library []) ''.'' default_namespace fresh_world =
     (local_wrapper, (record_call CoInitialize True fresh_world)\<lparr>com_initialized := True\<rparr>)"
    by (rule WMIWrapper_init_mock)
  have run: "get_connection_times 2 (mock_library []) local_wrapper
       ((record_call CoInitialize True fresh_world)\<lparr>com_initialized := True\<rparr>) =
     ([Inr mock_handle, Inr mock_handle], local_wrapper\<lparr>connection := Some mock_handle\<rparr>,
      record_call (WMI ''.'' default_namespace) True
        ((record_call CoInitialize True fresh_world)\<lparr>com_initialized := True\<rparr>))"
    by (simp add: numeral_2_eq_2 get_connection_mock get_connection_connected)
  from connection_created_at_most_once[OF init run] init run show ?thesis by blast
qed

section \<open>Conversion of a WMI object to a dictionary\<close>

lemma map_of_dict_set: "map_of (dict_set d k v) = (map_of d)(k \<mapsto> v)"
  by (induction d k v rule: dict_set.induct) auto

text \<open>What the loop leaves under a key, for any dictionary it starts from.\<close>

lemma map_of_to_dict_loop:
  "map_of (to_dict_loop obj props acc) p =
     (if p \<in> set props then
        (case obj_getattr obj p of
           Inl e \<Rightarrow> Some PNone
         | Inr val \<Rightarrow> if callable val then map_of acc p else Some val)
      else map_of acc p)"
proof (induction props arbitrary: acc)
  case Nil
  then show ?case by simp
next
  case (Cons q qs)
  show ?case
  proof (cases "obj_getattr obj q")
    case (Inl e)
    with Cons.IH[of "dict_set acc q PNone"] show ?thesis
      by (auto simp: map_of_dict_set split: sum.splits)
  next
    case (Inr val)
    with Cons.IH[of "dict_set acc q val"] Cons.IH[of acc] show ?thesis
      by (auto simp: map_of_dict_set split: sum.splits)
  qed
qed

lemma map_of_wmi_object_to_dict:
  "map_of (wmi_object_to_dict obj properties) p =
     (if p \<in> set (requested_properties obj properties) then
        (case obj_getattr obj p of
           Inl e \<Rightarrow> Some PNone
         | Inr val \<Rightarrow> if callable val then None else Some val)
      else None)"
  by (simp add: wmi_object_to_dict_def map_of_to_dict_loop split: sum.splits)

text \<open>
  C4. For every WMI object and every allow-list, given or omitted,
  \<^verbatim>\<open>wmi_object_to_dict\<close> returns a dictionary (it has no raising path) in which no
  property whose value is callable is a key, and in which every requested property whose
  access raises is mapped to null.
\<close>

theorem wmi_object_to_dict_no_methods_null_on_error:
  "(\<forall>p val. obj_getattr obj p = Inr val \<and> callable val \<longrightarrow>
       p \<notin> fst ` set (wmi_object_to_dict obj properties)) \<and>
   (\<forall>p e. p \<in> set (requested_properties obj properties) \<and> obj_getattr obj p = Inl e \<longrightarrow>
       map_of (wmi_object_to_dict obj properties) p = Some PNone)"
proof (intro conjI allI impI)
  fix p val
  assume "obj_getattr obj p = Inr val \<and> callable val"
  then have "map_of (wmi_object_to_dict obj properties) p = None"
    by (simp add: map_of_wmi_object_to_dict)
  then show "p \<notin> fst ` set (wmi_object_to_dict obj properties)"
    by (simp add: map_of_eq_None_iff)
next
  fix p e
  assume "p \<in> set (requested_properties obj properties) \<and> obj_getattr obj p = Inl e"
  then show "map_of (wmi_object_to_dict obj properties) p = Some PNone"
    by (simp add: map_of_wmi_object_to_dict)
qed

theorem wmi_object_to_dict_no_methods_null_on_error_witness:
  "obj_getattr sample_service ''StartService'' = Inr (PCallable ''<method StartService>'') \<and>
   callable (PCallable ''<method StartService>'') \<and>
   ''StartService'' \<notin> fst ` set (wmi_object_to_dict sample_service None) \<and>
   ''Status'' \<in> set (requested_properties sample_service None) \<and>
   obj_getattr sample_service ''Status'' = Inl (x_wmi ''access denied'') \<and>
   map_of (wmi_object_to_dict sample_service None) ''Status'' = Some PNone \<and>
   wmi_object_to_dict sample_service None = [(''Name'', PStr ''Spooler''), (''Status'', PNone)]"
proof -
  have is_method: "obj_getattr sample_service ''StartService'' = Inr (PCallable ''<method StartService>'')
      \<and> callable (PCallable ''<method StartService>'')"
    by (simp add: sample_service_def)
  have broken: "''Status'' \<in> set (requested_properties sample_service None) \<and>
      obj_getattr sample_service ''Status'' = Inl (x_wmi ''access denied'')"
    by (simp add: sample_service_def requested_properties_def)
  have whole: "wmi_object_to_dict sample_service None =
      [(''Name'', PStr ''Spooler''), (''Status'', PNone)]"
    by (simp add: wmi_object_to_dict_def requested_properties_def sample_service_def)
  from wmi_object_to_dict_no_methods_null_on_error[of sample_service None] is_method broken
  have "''StartService'' \<notin> fst ` set (wmi_object_to_dict sample_service None)"
    and "map_of (wmi_object_to_dict sample_service None) ''Status'' = Some PNone"
    by blast+
  with is_method broken whole show ?thesis by blast
qed

section \<open>Recent events\<close>

text \<open>
  C9. For a non-negative \<open>limit\<close>, whenever the underlying query returns,
  \<^verbatim>\<open>get_recent_events\<close> returns the conversions of the first \<open>limit\<close> events of the
  query result, in order; they are at most \<open>limit\<close>.
\<close>

theorem get_recent_events_first_limit:
  assumes "0 \<le> limit"
    and "query lib self (recent_events_query log_name event_type) w = (Inr events, self', w')"
  shows "get_recent_events lib self log_name event_type limit w =
           (Inr (map (\<lambda>e. wmi_object_to_dict e None) (take (nat limit) events)), self', w') \<and>
         length (map (\<lambda>e. wmi_object_to_dict e None) (take (nat limit) events)) \<le> nat limit"
  using assms by (simp add: get_recent_events_def slice_to_def)

theorem get_recent_events_first_limit_witness:
  "(0::int) \<le> 1 \<and>
   get_recent_events (mock_library [spooler, fax]) local_wrapper ''System'' (Some 1) 1 fresh_world =
     (Inr [wmi_object_to_dict spooler None], local_wrapper\<lparr>connection := Some mock_handle\<rparr>,
      record_call (conn_query mock_handle (recent_events_query ''System'' (Some 1))) True
        (record_call (WMI ''.'' default_namespace) True fresh_world))"
  using get_recent_events_first_limit
          [of 1 "mock_library [spooler, fax]" local_wrapper "''System''" "Some 1" fresh_world
              "[spooler, fax]", OF _ query_mock]
  by simp

section \<open>Evaluating the fixtures\<close>

lemma get_class_mock_connected:
  "get_class (mock_library rs) (local_wrapper\<lparr>connection := Some mock_handle\<rparr>) class_name kw w =
     (Inr rs, local_wrapper\<lparr>connection := Some mock_handle\<rparr>,
      record_call (conn_class mock_handle class_name kw) True w)"
  by (simp add: get_class_def get_connection_connected) (simp add: mock_library_def)

lemma init_wmi_fresh:
  "CoInitialize_result lib [] = None \<Longrightarrow>
   init_wmi lib None fresh_world = ((local_wrapper, local_wrapper, local_wrapper), initialised_world)"
  by (simp add: init_wmi_def WMIWrapper_init_def local_wrapper_def fresh_world_def
        initialised_world_def record_call_def)

lemma parse_int_zero: "parse_int ''0'' = Some 0"
  by (simp add: parse_int_def strip_def is_space_def digit_val_def)

lemma memory_info_of_zero:
  "memory_info_of (Some zero_memory) (Some zero_memory) = Inl (ZeroDivisionError ''division by zero'')"
  by (simp add: memory_info_of_def zero_memory_def record_of_def parse_int_zero int_truediv_def)

lemma disk_usage_entry_zero:
  "disk_usage_entry zero_disk = Inl (ZeroDivisionError ''division by zero'')"
  by (simp add: disk_usage_entry_def int_or_zero_def zero_disk_def record_of_def parse_int_zero
        int_truediv_def)

lemma disks_used_pct_zero: "disks_used_pct zero_disk = Inr (NInt 0)"
  by (simp add: disks_used_pct_def int_or_zero_def zero_disk_def record_of_def parse_int_zero)

section \<open>Used percentages\<close>

text \<open>
  C1. The claim is that every used-percentage computation returns 0 when the total is 0.
  The two guarded computations do (the agent tool \<^verbatim>\<open>get_disk_info\<close>, the command
  \<^verbatim>\<open>disks\<close>); \<^verbatim>\<open>SystemMonitor.get_memory_info\<close> has no guard and raises
  \<^verbatim>\<open>ZeroDivisionError\<close> on a total of 0, and so does
  \<^verbatim>\<open>SystemMonitor.get_disk_usage\<close> on a disk whose size is the string \<^verbatim>\<open>"0"\<close>,
  which its truthiness test lets through.
\<close>

theorem used_percentage_on_zero_total:
  "fst (get_memory_info (mock_library [zero_memory]) local_wrapper fresh_world) =
     Inl (ZeroDivisionError ''division by zero'') \<and>
   fst (get_disk_usage (mock_library [zero_disk]) local_wrapper fresh_world) =
     Inl (ZeroDivisionError ''division by zero'') \<and>
   get_disk_info_used_pct 0 free_space = Inr (NInt 0) \<and>
   disks_used_pct zero_disk = Inr (NInt 0)"
proof -
  have "fst (get_memory_info (mock_library [zero_memory]) local_wrapper fresh_world) =
     Inl (ZeroDivisionError ''division by zero'')"
    by (simp add: get_memory_info_def get_computer_system_def get_operating_system_def
          singleton_getter_def get_class_mock get_class_mock_connected memory_info_of_zero)
  moreover have "fst (get_disk_usage (mock_library [zero_disk]) local_wrapper fresh_world) =
     Inl (ZeroDivisionError ''division by zero'')"
    by (simp add: get_disk_usage_def get_logical_disks_def get_class_mock disk_usage_entry_zero)
  moreover have "get_disk_info_used_pct 0 free_space = Inr (NInt 0)"
    by (simp add: get_disk_info_used_pct_def)
  ultimately show ?thesis using disks_used_pct_zero by blast
qed

section \<open>Filters\<close>




section \<open>Listing services\<close>

lemma init_wmi_mock:
  "init_wmi (mock_library rs) None fresh_world =
     ((local_wrapper, local_wrapper, local_wrapper), initialised_world)"
  by (rule init_wmi_fresh) (simp add: mock_library_def)

lemma service_lines_spooler:
  "service_lines i spooler =
     Inr (''  '' @ str_nat i @ ''. Spooler - Running\<newline>     Display: Print Spooler\<newline>'')"
  by (simp add: service_lines_def attr_str_def spooler_def record_of_def)

lemma service_lines_fax:
  "service_lines i fax =
     Inr (''  '' @ str_nat i @ ''. Fax - Stopped\<newline>     Display: Fax\<newline>'')"
  by (simp add: service_lines_def attr_str_def fax_def record_of_def)

lemma services_text_both:
  "services_text [spooler, fax] =
     Inr ''Windows Services (2):\<newline>  1. Spooler - Running\<newline>     Display: Print Spooler\<newline>  2. Fax - Stopped\<newline>     Display: Fax\<newline>''"
  by (simp add: services_text_def service_lines_spooler service_lines_fax str_nat_digit
        digit_char_def)

lemma services_text_spooler:
  "services_text [spooler] =
     Inr ''Windows Services (1):\<newline>  1. Spooler - Running\<newline>     Display: Print Spooler\<newline>''"
  by (simp add: services_text_def service_lines_spooler str_nat_digit digit_char_def)

text \<open>
  C5, as stated, fails: \<^verbatim>\<open>list_services\<close> does not filter by state itself. On a mocked
  library whose every query returns the two service records, the answer to
  \<^verbatim>\<open>list_services(state="Running")\<close> lists the stopped \<^verbatim>\<open>Fax\<close> service as well, and
  is not the listing of the \<^verbatim>\<open>Spooler\<close> record alone.
\<close>

theorem list_services_mock_counterexample:
  "fst (list_services (mock_library [spooler, fax]) (Some ''Running'') None fresh_world) =
     Inr ''Windows Services (2):\<newline>  1. Spooler - Running\<newline>     Display: Print Spooler\<newline>  2. Fax - Stopped\<newline>     Display: Fax\<newline>'' \<and>
   fst (list_services (mock_library [spooler, fax]) (Some ''Running'') None fresh_world) \<noteq>
     services_text [spooler]"
  by (simp add: list_services_def list_services_body_def init_wmi_mock query_mock
        services_text_both services_text_spooler except_return_def)

text \<open>
  C5, amended. \<^verbatim>\<open>list_services(state="Running")\<close> sends the query
  \<^verbatim>\<open>SELECT Name, DisplayName, State, StartMode, Status FROM Win32_Service WHERE State = 'Running'\<close>
  and lists what the library returns for that query: when the library returns for it
  exactly one record, named \<^verbatim>\<open>Spooler\<close> and in state \<^verbatim>\<open>Running\<close>, the answer is the
  listing of that one service and of nothing else.
\<close>

theorem list_services_lists_query_answer:
  assumes "init_wmi lib st w = ((wrapper, system_mon, process_mgr), w0)"
    and "query lib wrapper
           (''SELECT Name, DisplayName, State, StartMode, Status FROM Win32_Service WHERE State = ''
            @ CHR 0x27 # ''Running'' @ [CHR 0x27]) w0 = (Inr [svc], wrapper1, w1)"
    and "obj_getattr svc ''Name'' = Inr (PStr ''Spooler'')"
    and "obj_getattr svc ''State'' = Inr (PStr ''Running'')"
    and "obj_getattr svc ''DisplayName'' = Inr (PStr display)"
  shows "list_services lib (Some ''Running'') st w =
           (Inr (''Windows Services (1):\<newline>  1. Spooler - Running\<newline>     Display: '' @ display
                 @ ''\<newline>''),
            Some (wrapper1, system_mon, process_mgr), w1)"
  using assms
  by (simp add: list_services_def list_services_body_def list_services_query_def
        services_text_def service_lines_def attr_str_def except_return_def digit_char_def
        str_nat_digit)

theorem list_services_lists_query_answer_witness:
  "list_services state_filtering_library (Some ''Running'') None fresh_world =
     (Inr ''Windows Services (1):\<newline>  1. Spooler - Running\<newline>     Display: Print Spooler\<newline>'',
      Some (local_wrapper\<lparr>connection := Some mock_handle\<rparr>, local_wrapper, local_wrapper),
      record_call (conn_query mock_handle (list_services_query (Some ''Running''))) True
        (record_call (WMI ''.'' default_namespace) True initialised_world))"
proof -
  have init: "init_wmi state_filtering_library None fresh_world =
      ((local_wrapper, local_wrapper, local_wrapper), initialised_world)"
    by (rule init_wmi_fresh) (simp add: state_filtering_library_def)
  have q: "query state_filtering_library local_wrapper
           (''SELECT Name, DisplayName, State, StartMode, Status FROM Win32_Service WHERE State = ''
            @ CHR 0x27 # ''Running'' @ [CHR 0x27]) initialised_world =
       (Inr [spooler], local_wrapper\<lparr>connection := Some mock_handle\<rparr>,
        record_call (conn_query mock_handle (list_services_query (Some ''Running''))) True
          (record_call (WMI ''.'' default_namespace) True initialised_world))"
    by (simp add: query_def get_connection_def state_filtering_library_def local_wrapper_def
          list_services_query_def record_call_def)
  have attrs: "obj_getattr spooler ''Name'' = Inr (PStr ''Spooler'')"
    "obj_getattr spooler ''State'' = Inr (PStr ''Running'')"
    "obj_getattr spooler ''DisplayName'' = Inr (PStr ''Print Spooler'')"
    by (simp_all add: spooler_def record_of_def)
  from list_services_lists_query_answer[OF init q attrs] show ?thesis by simp
qed

section \<open>Where exceptions are caught\<close>






section \<open>Formatting a byte count\<close>

lemma unit_index_ranges:
  "0 \<le> n \<Longrightarrow> unit_index n =
     (if n < 1024 then 0 else if n < 1024 ^ 2 then 1 else if n < 1024 ^ 3 then 2
      else if n < 1024 ^ 4 then 3 else if n < 1024 ^ 5 then 4 else 5)"
  by (simp add: unit_index_def unit_fits_def mantissa_def divide_less_eq)

lemma float_loop:
  "format_bytes_loop [''KB'', ''MB'', ''GB'', ''TB''] (NFloat (Float y)) =
     (let j = (if y < 1024 then 0 else if y < 1024 ^ 2 then 1 else if y < 1024 ^ 3 then 2
               else if y < 1024 ^ 4 then 3 else 4 :: nat)
      in Inr (format_f 2 (Float (y / 1024 ^ j)) @ '' '' @ [''KB'', ''MB'', ''GB'', ''TB'', ''PB''] ! j))"
  by (simp add: with_unit_def divide_less_eq Let_def)

lemma bit_length_greater: "2 ^ k \<le> n \<Longrightarrow> k < bit_length n"
proof (induction k arbitrary: n)
  case 0
  then show ?case by (subst bit_length.simps) simp
next
  case (Suc k)
  then have "2 ^ k \<le> n div 2" by simp
  then have "k < bit_length (n div 2)" by (rule Suc.IH)
  moreover have "0 < (2::nat) ^ Suc k" by simp
  with Suc.prems have "n \<noteq> 0" by linarith
  ultimately show ?case by (subst bit_length.simps) simp
qed

lemma bit_length_lower: "0 < n \<Longrightarrow> 2 ^ (bit_length n - 1) \<le> n"
proof (induction n rule: bit_length.induct)
  case (1 n)
  show ?case
  proof (cases "n div 2 = 0")
    case True
    then have "bit_length (n div 2) = 0" by (subst bit_length.simps) simp
    with 1 show ?thesis by (subst bit_length.simps) simp
  next
    case False
    with 1 have ih: "2 ^ (bit_length (n div 2) - 1) \<le> n div 2" by simp
    from False have pos: "0 < bit_length (n div 2)"
      by (subst bit_length.simps) simp
    have "bit_length n = Suc (bit_length (n div 2))"
      using 1 by (subst bit_length.simps) simp
    then have "(2::nat) ^ (bit_length n - 1) = 2 * 2 ^ (bit_length (n div 2) - 1)"
      using pos by (cases "bit_length (n div 2)") simp_all
    also have "\<dots> \<le> 2 * (n div 2)" using ih by simp
    also have "\<dots> \<le> n" by simp
    finally show ?thesis .
  qed
qed

lemma float_of_nat_exact: "n < 2 ^ 53 \<Longrightarrow> float_of_nat n = Inr (of_nat n)"
  by (simp add: float_of_nat_def)

lemma float_of_nat_large:
  assumes "2 ^ 53 \<le> n" and "float_of_nat n = Inr x"
  shows "2 ^ 53 \<le> x"
proof -
  define e where "e = bit_length n - 53"
  define q where "q = n div 2 ^ e"
  define q' where "q' = (if 2 ^ e < 2 * (n mod 2 ^ e) \<or> (2 * (n mod 2 ^ e) = 2 ^ e \<and> odd q) then q + 1 else q)"
  from assms(1) have bl: "53 < bit_length n" by (rule bit_length_greater)
  then have e1: "1 \<le> e" and ble: "bit_length n - 1 = e + 52" by (simp_all add: e_def)
  from assms(1) have "0 < n" by (simp add: less_le_trans[of 0 "2^53"])
  then have "2 ^ (e + 52) \<le> n" using bit_length_lower[of n] ble by simp
  then have "(2::nat) ^ (e + 52) div 2 ^ e \<le> q" unfolding q_def by (rule div_le_mono)
  then have q52: "2 ^ 52 \<le> q" by (simp add: power_add)
  have "q \<le> q'" by (simp add: q'_def)
  with q52 have "2 ^ 52 \<le> q'" by simp
  moreover from e1 have "(2::nat) ^ 1 \<le> 2 ^ e" by (rule power_increasing) simp
  ultimately have "2 ^ 52 * 2 ^ 1 \<le> q' * 2 ^ e" by (rule mult_le_mono)
  then have big: "2 ^ 53 \<le> q' * 2 ^ e" by simp
  from assms(1) have "\<not> n < 2 ^ 53" by simp
  then have "float_of_nat n =
      (if 2 ^ 1024 \<le> q' * 2 ^ e then Inl (OverflowError ''int too large to convert to float'')
       else Inr (of_nat (q' * 2 ^ e)))"
    unfolding float_of_nat_def Let_def e_def q_def q'_def by (simp only: if_False)
  with assms(2) have "x = of_nat (q' * 2 ^ e)"
    by (simp split: if_splits)
  moreover from big have "(of_nat (2 ^ 53) :: rat) \<le> of_nat (q' * 2 ^ e)"
    by (simp only: of_nat_le_iff)
  ultimately show ?thesis by simp
qed

lemma float_of_int_exact: "0 \<le> n \<Longrightarrow> n < 2 ^ 53 \<Longrightarrow> float_of_int n = Inr (of_int n)"
proof -
  assume a: "0 \<le> n" "n < 2 ^ 53"
  then have "nat n < 2 ^ 53" by (simp add: nat_less_iff)
  then have "float_of_nat (nat n) = Inr (of_nat (nat n))" by (rule float_of_nat_exact)
  with a show ?thesis by (simp add: float_of_int_def)
qed

lemma float_of_int_large:
  assumes "2 ^ 53 \<le> n" and "float_of_int n = Inr x"
  shows "2 ^ 53 \<le> x"
proof -
  from assms(1) have "0 \<le> n" by simp
  with assms(1) have "2 ^ 53 \<le> nat n" by (simp add: le_nat_iff)
  moreover from assms \<open>0 \<le> n\<close> have "float_of_nat (nat n) = Inr x"
    by (simp add: float_of_int_def)
  ultimately show ?thesis by (rule float_of_nat_large)
qed

lemma unit_index_minimal: "j < unit_index n \<Longrightarrow> \<not> unit_fits n j"
proof -
  assume lt: "j < unit_index n"
  show ?thesis
  proof (cases "find (unit_fits n) [0, 1, 2, 3, 4, 5]")
    case None
    then have "\<forall>k \<in> set [0, 1, 2, 3, 4, 5]. \<not> unit_fits n k" by (simp only: find_None_iff) blast
    moreover from lt None have "j < 5" by (simp add: unit_index_def)
    then have "j \<in> set [0, 1, 2, 3, 4, 5::nat]" by auto
    ultimately show ?thesis by blast
  next
    case (Some k)
    then obtain i where i: "i < length [0, 1, 2, 3, 4, 5::nat]" "k = [0, 1, 2, 3, 4, 5] ! i"
      "\<forall>m<i. \<not> unit_fits n ([0, 1, 2, 3, 4, 5] ! m)"
      by (auto simp only: find_Some_iff)
    have nth: "m < 6 \<Longrightarrow> [0, 1, 2, 3, 4, 5::nat] ! m = m" for m
      by (auto simp: less_Suc_eq numeral_eq_Suc)
    from i(1) have "i < 6" by simp
    with i(2) nth have "k = i" by simp
    with lt Some have "j < i" by (simp add: unit_index_def)
    with i(3) \<open>i < 6\<close> nth[of j] show ?thesis by auto
  qed
qed

text \<open>
  C2, amended. For every \<open>n \<ge> 0\<close>, \<^verbatim>\<open>format_bytes(n)\<close> is the mantissa of
  \<^verbatim>\<open>float(n)\<close> in the unit of index \<open>unit_index n\<close>, with two decimals, a space and the
  unit name, and it raises exactly when \<^verbatim>\<open>float(n)\<close> overflows. Below \<open>2 ^ 53\<close> the
  float is \<open>n\<close> itself, so the number shown is the mantissa of \<open>n\<close>. Below \<open>1024 ^ 6\<close>
  the unit is the smallest one whose mantissa is under 1024; from \<open>1024 ^ 6\<close> on no unit
  fits and the unit is PB, with a mantissa of 1024 or more.
\<close>

theorem format_bytes_smallest_fitting_unit:
  assumes "0 \<le> n"
  shows "format_bytes n =
           (case float_of_int n of
              Inl e \<Rightarrow> Inl e
            | Inr x \<Rightarrow> Inr (format_f 2 (Float (x / 1024 ^ unit_index n)) @ '' '' @
                            unit_names ! unit_index n)) \<and>
         (n < 2 ^ 53 \<longrightarrow>
            format_bytes n = Inr (format_f 2 (Float (mantissa n (unit_index n))) @ '' '' @
                                  unit_names ! unit_index n)) \<and>
         (n < 1024 ^ 6 \<longrightarrow> unit_fits n (unit_index n)) \<and>
         (\<forall>j < unit_index n. \<not> unit_fits n j) \<and>
         (1024 ^ 6 \<le> n \<longrightarrow> unit_index n = 5 \<and> \<not> unit_fits n 5)"
proof -
  have main: "format_bytes n =
           (case float_of_int n of
              Inl e \<Rightarrow> Inl e
            | Inr x \<Rightarrow> Inr (format_f 2 (Float (x / 1024 ^ unit_index n)) @ '' '' @
                            unit_names ! unit_index n))"
  proof (cases "n < 1024")
    case True
    with assms show ?thesis
      by (simp add: format_bytes_def with_unit_def unit_index_ranges unit_names_def
            split: sum.splits)
  next
    case False
    show ?thesis
    proof (cases "float_of_int n")
      case (Inl e)
      with False show ?thesis by (simp add: format_bytes_def)
    next
      case (Inr x)
      have thresholds: "(x < 1024 ^ 2) = (n < 1024 ^ 2) \<and> (x < 1024 ^ 3) = (n < 1024 ^ 3) \<and>
          (x < 1024 ^ 4) = (n < 1024 ^ 4) \<and> (x < 1024 ^ 5) = (n < 1024 ^ 5)"
      proof (cases "n < 2 ^ 53")
        case True
        with assms Inr have "x = of_int n" by (simp add: float_of_int_exact)
        then show ?thesis by (simp only: of_int_less_numeral_power_cancel_iff)
      next
        case False
        then have "2 ^ 53 \<le> n" by simp
        from this Inr have "2 ^ 53 \<le> x" by (rule float_of_int_large)
        with \<open>2 ^ 53 \<le> n\<close> show ?thesis by simp
      qed
      from False Inr have "format_bytes n =
          format_bytes_loop [''KB'', ''MB'', ''GB'', ''TB''] (NFloat (Float (x / 1024)))"
        by (simp add: format_bytes_def)
      with False assms Inr thresholds show ?thesis
        by (simp add: float_loop unit_index_ranges unit_names_def divide_less_eq Let_def
              with_unit_def)
    qed
  qed
  have exact: "n < 2 ^ 53 \<longrightarrow>
      format_bytes n = Inr (format_f 2 (Float (mantissa n (unit_index n))) @ '' '' @
                             unit_names ! unit_index n)"
    using main assms by (simp add: float_of_int_exact mantissa_def)
  have fits: "n < 1024 ^ 6 \<longrightarrow> unit_fits n (unit_index n)"
    using assms by (simp add: unit_index_ranges unit_fits_def mantissa_def divide_less_eq)
  have last: "1024 ^ 6 \<le> n \<longrightarrow> unit_index n = 5 \<and> \<not> unit_fits n 5"
    using assms by (simp add: unit_index_ranges unit_fits_def mantissa_def divide_less_eq)
  from main exact fits last unit_index_minimal[of _ n] show ?thesis by blast
qed

lemma bit_length_1024_6: "bit_length 1152921504606846976 = 61"
  by (simp add: bit_length.simps)

text \<open>
  C2, as stated, fails beyond the ladder: for \<open>1024 ^ 6\<close> bytes no unit has a mantissa
  under 1024, and the answer is \<^verbatim>\<open>1024.00 PB\<close>.
\<close>

theorem format_bytes_beyond_ladder_counterexample:
  "format_bytes (1024 ^ 6) = Inr ''1024.00 PB'' \<and>
   \<not> unit_fits (1024 ^ 6) 0 \<and> \<not> unit_fits (1024 ^ 6) 1 \<and> \<not> unit_fits (1024 ^ 6) 2 \<and>
   \<not> unit_fits (1024 ^ 6) 3 \<and> \<not> unit_fits (1024 ^ 6) 4 \<and> \<not> unit_fits (1024 ^ 6) 5"
proof -
  have "float_of_int (1024 ^ 6) = Inr (1024 ^ 6)"
    by (simp add: float_of_int_def float_of_nat_def bit_length_1024_6)
  then have "format_bytes (1024 ^ 6) = Inr ''1024.00 PB''"
    by (simp add: format_bytes_def with_unit_def format_f_def round_half_even_def digit_char_def
          str_nat.simps)
  then show ?thesis by (simp add: unit_fits_def mantissa_def)
qed

theorem format_bytes_smallest_fitting_unit_witness:
  "(0::int) \<le> 1536 \<and> format_bytes 1536 = Inr ''1.50 KB'' \<and> unit_fits 1536 1 \<and>
   \<not> unit_fits 1536 0 \<and> format_bytes 0 = Inr ''0.00 B''"
proof -
  have idx: "unit_index 1536 = 1" "unit_index 0 = 0"
    by (simp_all add: unit_index_ranges)
  have fmt: "format_f 2 (Float (mantissa 1536 (Suc 0))) = ''1.50''"
    "format_f 2 (Float (mantissa 0 0)) = ''0.00''"
    by (simp_all add: format_f_def mantissa_def round_half_even_def digit_char_def str_nat.simps)
  have le: "(0::int) \<le> 1536" by simp
  note kb = format_bytes_smallest_fitting_unit[OF le]
  note zero = format_bytes_smallest_fitting_unit[OF order_refl]
  from kb[THEN conjunct2, THEN conjunct1] have a: "format_bytes 1536 = Inr ''1.50 KB''"
    by (simp add: idx fmt unit_names_def)
  from zero[THEN conjunct2, THEN conjunct1] have b: "format_bytes 0 = Inr ''0.00 B''"
    by (simp add: idx fmt unit_names_def)
  from kb[THEN conjunct2, THEN conjunct2] have c: "unit_fits 1536 1 \<and> \<not> unit_fits 1536 0"
    by (simp add: idx)
  from le a b c show ?thesis by blast
qed

section \<open>Uptime\<close>






















section \<open>Finite floats\<close>









section \<open>The difference of two datetimes\<close>













end
